theory Spec2Isabelle
  imports Complex_Main
begin

section \<open>UK payroll estimator: tax-year table and calculation engine\<close>

text \<open>
  The engine of \<^verbatim>\<open>App.tsx\<close> (the multi-year calculator) and of
  \<^verbatim>\<open>src/ukTax2425.ts\<close> (the single-year calculator) is embedded function by function.
  Amounts of money are the source's \<^verbatim>\<open>number\<close>s; they are modelled as exact rationals
  (\<^typ>\<open>rat\<close>), so a decimal constant such as \<^verbatim>\<open>0.08\<close> is the fraction it denotes and
  sums and products are exact. Where a claim is about the digits the program computes, the
  engine is read a second time in binary64 arithmetic, every operation rounded as the
  program rounds it (the definitions whose names end in \<open>_b64\<close>). The special values NaN
  and Infinity are outside both readings.
\<close>

subsection \<open>Data model\<close>

datatype TaxYearKey = Y2019_20 | Y2020_21 | Y2021_22 | Y2022_23 | Y2023_24 | Y2024_25

text \<open>\<^verbatim>\<open>notes?: string[]\<close> is an optional field: \<open>None\<close> where the entry has no notes.\<close>

record YearParams =
  year :: TaxYearKey
  personalAllowance :: rat
  taperStart :: rat
  taperEnd :: rat
  basicBandTaxable :: rat
  higherThresholdTaxable :: rat
  niPrimaryThreshold :: rat
  niUpperEarningsLimit :: rat
  niMainRate :: rat
  niAdditionalRate :: rat
  "notes" :: "string list option"

subsection \<open>The parameter table\<close>

text \<open>
  \<^verbatim>\<open>const YEARS: Record<TaxYearKey, YearParams>\<close>: one entry per key of the closed key type,
  so the lookup \<^verbatim>\<open>YEARS[year]\<close> is a total function.
\<close>

fun YEARS :: "TaxYearKey \<Rightarrow> YearParams" where
  "YEARS Y2019_20 = \<lparr>
     year = Y2019_20,
     personalAllowance = 12500,
     taperStart = 100000,
     taperEnd = 125000,
     basicBandTaxable = 37500,
     higherThresholdTaxable = 150000,
     niPrimaryThreshold = 8632,
     niUpperEarningsLimit = 50000,
     niMainRate = 0.12,
     niAdditionalRate = 0.02,
     notes = None \<rparr>"
| "YEARS Y2020_21 = \<lparr>
     year = Y2020_21,
     personalAllowance = 12500,
     taperStart = 100000,
     taperEnd = 125000,
     basicBandTaxable = 37500,
     higherThresholdTaxable = 150000,
     niPrimaryThreshold = 9500,
     niUpperEarningsLimit = 50000,
     niMainRate = 0.12,
     niAdditionalRate = 0.02,
     notes = None \<rparr>"
| "YEARS Y2021_22 = \<lparr>
     year = Y2021_22,
     personalAllowance = 12570,
     taperStart = 100000,
     taperEnd = 125140,
     basicBandTaxable = 37700,
     higherThresholdTaxable = 150000,
     niPrimaryThreshold = 9568,
     niUpperEarningsLimit = 50270,
     niMainRate = 0.12,
     niAdditionalRate = 0.02,
     notes = None \<rparr>"
| "YEARS Y2022_23 = \<lparr>
     year = Y2022_23,
     personalAllowance = 12570,
     taperStart = 100000,
     taperEnd = 125140,
     basicBandTaxable = 37700,
     higherThresholdTaxable = 150000,
     niPrimaryThreshold = 12570,
     niUpperEarningsLimit = 50270,
     niMainRate = 0.1325,
     niAdditionalRate = 0.0325,
     notes = Some [''NI rates/thresholds changed mid-year in 2022/23; this is a simplified estimate.''] \<rparr>"
| "YEARS Y2023_24 = \<lparr>
     year = Y2023_24,
     personalAllowance = 12570,
     taperStart = 100000,
     taperEnd = 125140,
     basicBandTaxable = 37700,
     higherThresholdTaxable = 125140,
     niPrimaryThreshold = 12570,
     niUpperEarningsLimit = 50270,
     niMainRate = 0.10,
     niAdditionalRate = 0.02,
     notes = Some [''NI main rate changed during 2023/24; this is a simplified estimate.''] \<rparr>"
| "YEARS Y2024_25 = \<lparr>
     year = Y2024_25,
     personalAllowance = 12570,
     taperStart = 100000,
     taperEnd = 125140,
     basicBandTaxable = 37700,
     higherThresholdTaxable = 125140,
     niPrimaryThreshold = 12570,
     niUpperEarningsLimit = 50270,
     niMainRate = 0.08,
     niAdditionalRate = 0.02,
     notes = None \<rparr>"

subsection \<open>Binary64 rounding\<close>

text \<open>
  A \<^verbatim>\<open>number\<close> of the source is an IEEE 754 binary64 value, and each arithmetic operation
  returns the exact result rounded to the nearest such value, ties to the even significand.
  \<open>b64\<close> is that rounding on the rationals: the exponent \<open>e\<close> of \<open>x\<close> (at least -1022, where
  the subnormal range begins), the unit in the last place \<open>2 ^ (e - 52)\<close>, and the multiple
  of that unit nearest to \<open>x\<close>. Overflow to Infinity (magnitudes of \<open>2 ^ 1024\<close> and more)
  and NaN are not represented.
\<close>

fun bitlen :: "nat \<Rightarrow> nat" where
  "bitlen n = (if n = 0 then 0 else Suc (bitlen (n div 2)))"

declare bitlen.simps [simp del]

definition pow2 :: "int \<Rightarrow> rat" where
  "pow2 k = (if 0 \<le> k then 2 ^ nat k else 1 / 2 ^ nat (- k))"

text \<open>\<open>ilog2 x\<close> is the integer \<open>e\<close> with \<open>2 ^ e \<le> x < 2 ^ (e + 1)\<close>, for \<open>x > 0\<close>.\<close>

definition ilog2 :: "rat \<Rightarrow> int" where
  "ilog2 x =
     (if 1 \<le> x then int (bitlen (nat \<lfloor>x\<rfloor>)) - 1
      else let k = int (bitlen (nat \<lfloor>1 / x\<rfloor>)) - 1
           in if pow2 k = 1 / x then - k else - (k + 1))"

definition roundHalfEven :: "rat \<Rightarrow> int" where
  "roundHalfEven q =
     (let n = \<lfloor>q\<rfloor>; r = q - of_int n
      in if r < 1 / 2 then n
         else if 1 / 2 < r then n + 1
         else if even n then n else n + 1)"

definition b64 :: "rat \<Rightarrow> rat" where
  "b64 x =
     (if x = 0 then 0
      else let e = max (ilog2 \<bar>x\<bar>) (- 1022);
               ulp = pow2 (e - 52)
           in sgn x * of_int (roundHalfEven (\<bar>x\<bar> / ulp)) * ulp)"

text \<open>The four arithmetic operators of the source, on binary64 values.\<close>

definition fadd :: "rat \<Rightarrow> rat \<Rightarrow> rat" where
  "fadd x y = b64 (x + y)"

definition fsub :: "rat \<Rightarrow> rat \<Rightarrow> rat" where
  "fsub x y = b64 (x - y)"

definition fmul :: "rat \<Rightarrow> rat \<Rightarrow> rat" where
  "fmul x y = b64 (x * y)"

text \<open>The engine divides by 2, by 12 and by a gross it has tested to be positive.\<close>

definition fdiv :: "rat \<Rightarrow> rat \<Rightarrow> rat" where
  "fdiv x y = b64 (x / y)"

text \<open>
  The table as the program holds it: every numeric literal is the binary64 value nearest
  to it.
\<close>

definition YEARS_b64 :: "TaxYearKey \<Rightarrow> YearParams" where
  "YEARS_b64 y =
     (let p = YEARS y in
      p\<lparr> personalAllowance := b64 (personalAllowance p),
         taperStart := b64 (taperStart p),
         taperEnd := b64 (taperEnd p),
         basicBandTaxable := b64 (basicBandTaxable p),
         higherThresholdTaxable := b64 (higherThresholdTaxable p),
         niPrimaryThreshold := b64 (niPrimaryThreshold p),
         niUpperEarningsLimit := b64 (niUpperEarningsLimit p),
         niMainRate := b64 (niMainRate p),
         niAdditionalRate := b64 (niAdditionalRate p) \<rparr>)"

subsection \<open>The calculators of the multi-year engine\<close>

definition clamp :: "rat \<Rightarrow> rat \<Rightarrow> rat \<Rightarrow> rat" where
  "clamp n lo hi = max lo (min hi n)"

definition calcPersonalAllowance :: "YearParams \<Rightarrow> rat \<Rightarrow> rat" where
  "calcPersonalAllowance params grossAnnual =
     (let g = max 0 grossAnnual in
      if g \<le> taperStart params then personalAllowance params
      else if g \<ge> taperEnd params then 0
      else let reduction = (g - taperStart params) / 2 in
        clamp (personalAllowance params - reduction) 0 (personalAllowance params))"

definition calcIncomeTax :: "YearParams \<Rightarrow> rat \<Rightarrow> rat" where
  "calcIncomeTax params taxableAnnual =
     (let t = max 0 taxableAnnual;
          basic = min t (basicBandTaxable params) * 0.2;
          higherBase = max 0 (t - basicBandTaxable params);
          higherBandWidth = max 0 (higherThresholdTaxable params - basicBandTaxable params);
          higher = min higherBase higherBandWidth * 0.4;
          additional = max 0 (t - higherThresholdTaxable params) * 0.45
      in basic + higher + additional)"

definition calcEmployeeNI :: "YearParams \<Rightarrow> rat \<Rightarrow> rat" where
  "calcEmployeeNI params grossAnnual =
     (let g = max 0 grossAnnual;
          mainBase = max 0 (min g (niUpperEarningsLimit params) - niPrimaryThreshold params);
          addBase = max 0 (g - niUpperEarningsLimit params)
      in mainBase * niMainRate params + addBase * niAdditionalRate params)"

subsection \<open>The single-year engine of \<^verbatim>\<open>ukTax2425.ts\<close>\<close>

definition PA_FULL :: rat where "PA_FULL = 12570"
definition PA_TAPER_START :: rat where "PA_TAPER_START = 100000"
definition PA_ZERO_AT :: rat where "PA_ZERO_AT = 125140"
definition BASIC_BAND :: rat where "BASIC_BAND = 37700"
definition NI_PT :: rat where "NI_PT = 12570"
definition NI_UEL :: rat where "NI_UEL = 50270"
definition NI_MAIN :: rat where "NI_MAIN = 0.08"
definition NI_ADDITIONAL :: rat where "NI_ADDITIONAL = 0.02"

text \<open>Unlike \<open>calcPersonalAllowance\<close>, this one does not clamp its argument at 0 itself.\<close>

definition personalAllowance2425 :: "rat \<Rightarrow> rat" where
  "personalAllowance2425 grossAnnual =
     (if grossAnnual \<le> PA_TAPER_START then PA_FULL
      else if grossAnnual \<ge> PA_ZERO_AT then 0
      else let reduction = (grossAnnual - PA_TAPER_START) / 2 in
        clamp (PA_FULL - reduction) 0 PA_FULL)"

definition calcIncomeTax2425 :: "rat \<Rightarrow> rat" where
  "calcIncomeTax2425 taxableAnnual =
     (let t = max 0 taxableAnnual;
          basic = min t BASIC_BAND * 0.2;
          higherBase = max 0 (t - BASIC_BAND);
          higherBandLimit = PA_ZERO_AT;
          higher = min higherBase (max 0 (higherBandLimit - BASIC_BAND)) * 0.4;
          additionalBase = max 0 (t - higherBandLimit);
          additional = additionalBase * 0.45
      in basic + higher + additional)"

definition calcEmployeeNI2425 :: "rat \<Rightarrow> rat" where
  "calcEmployeeNI2425 grossAnnual =
     (let g = max 0 grossAnnual;
          mainBase = max 0 (min g NI_UEL - NI_PT);
          addBase = max 0 (g - NI_UEL)
      in mainBase * NI_MAIN + addBase * NI_ADDITIONAL)"

record PayrollResult2425 =
  grossAnnual :: rat
  personalAllowance :: rat
  taxableAnnual :: rat
  incomeTaxAnnual :: rat
  niAnnual :: rat
  netAnnual :: rat
  netMonthly :: rat
  takeHomePct :: rat

definition payrollFromAnnualSalary2425 :: "rat \<Rightarrow> PayrollResult2425" where
  "payrollFromAnnualSalary2425 grossAnnual' =
     (let gross = max 0 grossAnnual';
          pa = personalAllowance2425 gross;
          taxable = max 0 (gross - pa);
          incomeTax = calcIncomeTax2425 taxable;
          ni = calcEmployeeNI2425 gross;
          net = max 0 (gross - incomeTax - ni);
          netMonthly' = net / 12;
          takeHomePct' = (if gross > 0 then (net / gross) * 100 else 0)
      in \<lparr> grossAnnual = gross,
           personalAllowance = pa,
           taxableAnnual = taxable,
           incomeTaxAnnual = incomeTax,
           niAnnual = ni,
           netAnnual = net,
           netMonthly = netMonthly',
           takeHomePct = takeHomePct' \<rparr>)"

subsection \<open>The aggregator of the multi-year engine\<close>

record PayrollResult =
  year :: TaxYearKey
  grossAnnual :: rat
  personalAllowance :: rat
  taxableAnnual :: rat
  incomeTaxAnnual :: rat
  niAnnual :: rat
  netAnnual :: rat
  netMonthly :: rat
  takeHomePct :: rat
  "notes" :: "string list"

definition payrollFromAnnualSalary :: "TaxYearKey \<Rightarrow> rat \<Rightarrow> PayrollResult" where
  "payrollFromAnnualSalary year' grossAnnual' =
     (let params = YEARS year';
          gross = max 0 grossAnnual';
          pa = calcPersonalAllowance params gross;
          taxable = max 0 (gross - pa);
          incomeTax = calcIncomeTax params taxable;
          ni = calcEmployeeNI params gross;
          net = max 0 (gross - incomeTax - ni);
          netMonthly' = net / 12
      in \<lparr> year = year',
           grossAnnual = gross,
           personalAllowance = pa,
           taxableAnnual = taxable,
           incomeTaxAnnual = incomeTax,
           niAnnual = ni,
           netAnnual = net,
           netMonthly = netMonthly',
           takeHomePct = (if gross > 0 then (net / gross) * 100 else 0),
           notes = (case YearParams.notes params of None \<Rightarrow> [] | Some ns \<Rightarrow> ns) \<rparr>)"

subsection \<open>The multi-year engine in binary64 arithmetic\<close>

text \<open>
  The same four functions of \<^verbatim>\<open>App.tsx\<close> with every \<^verbatim>\<open>+\<close>, \<^verbatim>\<open>-\<close>, \<^verbatim>\<open>*\<close> and \<^verbatim>\<open>/\<close> rounded as
  the program rounds it, in the source's order of evaluation, and every decimal literal
  replaced by the binary64 value it denotes. \<^verbatim>\<open>Math.max\<close>, \<^verbatim>\<open>Math.min\<close> and the comparisons are
  exact. The arguments range over binary64 values.
\<close>

definition calcPersonalAllowance_b64 :: "YearParams \<Rightarrow> rat \<Rightarrow> rat" where
  "calcPersonalAllowance_b64 params grossAnnual' =
     (let g = max 0 grossAnnual' in
      if g \<le> taperStart params then YearParams.personalAllowance params
      else if g \<ge> taperEnd params then 0
      else let reduction = fdiv (fsub g (taperStart params)) 2 in
        clamp (fsub (YearParams.personalAllowance params) reduction) 0
          (YearParams.personalAllowance params))"

definition calcIncomeTax_b64 :: "YearParams \<Rightarrow> rat \<Rightarrow> rat" where
  "calcIncomeTax_b64 params taxableAnnual' =
     (let t = max 0 taxableAnnual';
          basic = fmul (min t (basicBandTaxable params)) (b64 0.2);
          higherBase = max 0 (fsub t (basicBandTaxable params));
          higherBandWidth =
            max 0 (fsub (higherThresholdTaxable params) (basicBandTaxable params));
          higher = fmul (min higherBase higherBandWidth) (b64 0.4);
          additional = fmul (max 0 (fsub t (higherThresholdTaxable params))) (b64 0.45)
      in fadd (fadd basic higher) additional)"

definition calcEmployeeNI_b64 :: "YearParams \<Rightarrow> rat \<Rightarrow> rat" where
  "calcEmployeeNI_b64 params grossAnnual' =
     (let g = max 0 grossAnnual';
          mainBase =
            max 0 (fsub (min g (niUpperEarningsLimit params)) (niPrimaryThreshold params));
          addBase = max 0 (fsub g (niUpperEarningsLimit params))
      in fadd (fmul mainBase (niMainRate params)) (fmul addBase (niAdditionalRate params)))"

definition payrollFromAnnualSalary_b64 :: "TaxYearKey \<Rightarrow> rat \<Rightarrow> PayrollResult" where
  "payrollFromAnnualSalary_b64 year' grossAnnual' =
     (let params = YEARS_b64 year';
          gross = max 0 grossAnnual';
          pa = calcPersonalAllowance_b64 params gross;
          taxable = max 0 (fsub gross pa);
          incomeTax = calcIncomeTax_b64 params taxable;
          ni = calcEmployeeNI_b64 params gross;
          net = max 0 (fsub (fsub gross incomeTax) ni);
          netMonthly' = fdiv net 12
      in \<lparr> year = year',
           grossAnnual = gross,
           personalAllowance = pa,
           taxableAnnual = taxable,
           incomeTaxAnnual = incomeTax,
           niAnnual = ni,
           netAnnual = net,
           netMonthly = netMonthly',
           takeHomePct = (if gross > 0 then fmul (fdiv net gross) 100 else 0),
           notes = (case YearParams.notes params of None \<Rightarrow> [] | Some ns \<Rightarrow> ns) \<rparr>)"

section \<open>Properties\<close>

subsection \<open>Auxiliary facts\<close>

text \<open>What the proofs below need of the table: signs and order of its constants.\<close>

lemma YEARS_facts:
  "0 \<le> YearParams.personalAllowance (YEARS y)"
  "taperStart (YEARS y) < taperEnd (YEARS y)"
  "0 \<le> basicBandTaxable (YEARS y)"
  "basicBandTaxable (YEARS y) \<le> higherThresholdTaxable (YEARS y)"
  "niPrimaryThreshold (YEARS y) \<le> niUpperEarningsLimit (YEARS y)"
  "0 \<le> niMainRate (YEARS y)"
  "0 \<le> niAdditionalRate (YEARS y)"
  by (cases y; simp)+

text \<open>\<open>clamp\<close> is monotone in its first argument and stays within its bounds.\<close>

lemma clamp_mono: "n1 \<le> n2 \<Longrightarrow> clamp n1 lo hi \<le> clamp n2 lo hi"
  unfolding clamp_def by (intro max.mono min.mono order_refl)

lemma clamp_bounds: "lo \<le> hi \<Longrightarrow> lo \<le> clamp n lo hi \<and> clamp n lo hi \<le> hi"
  by (simp add: clamp_def)

lemma calcPersonalAllowance_bounds:
  assumes "0 \<le> YearParams.personalAllowance p"
  shows "0 \<le> calcPersonalAllowance p g \<and> calcPersonalAllowance p g \<le> YearParams.personalAllowance p"
  using assms by (simp add: calcPersonalAllowance_def Let_def clamp_def)

lemma calcPersonalAllowance_antimono:
  assumes pa: "0 \<le> YearParams.personalAllowance p" and le: "g1 \<le> g2"
  shows "calcPersonalAllowance p g2 \<le> calcPersonalAllowance p g1"
proof -
  define a where "a = max 0 g1"
  define b where "b = max 0 g2"
  have ab: "a \<le> b"
    unfolding a_def b_def using le by (intro max.mono order_refl)
  have c: "clamp (YearParams.personalAllowance p - (b - taperStart p) / 2) 0 (YearParams.personalAllowance p)
      \<le> clamp (YearParams.personalAllowance p - (a - taperStart p) / 2) 0 (YearParams.personalAllowance p)"
    using ab by (intro clamp_mono) (simp add: divide_right_mono)
  note bd = clamp_bounds [OF pa]
  show ?thesis
    unfolding calcPersonalAllowance_def Let_def a_def [symmetric] b_def [symmetric]
    using ab c pa bd by auto
qed

lemma calcIncomeTax_mono:
  assumes "t1 \<le> t2"
  shows "calcIncomeTax p t1 \<le> calcIncomeTax p t2"
  unfolding calcIncomeTax_def Let_def
  by (intro add_mono mult_right_mono min.mono max.mono diff_right_mono order_refl assms) simp_all

lemma calcIncomeTax_nonneg:
  assumes "0 \<le> basicBandTaxable p"
  shows "0 \<le> calcIncomeTax p t"
  using assms by (simp add: calcIncomeTax_def Let_def)

lemma calcEmployeeNI_nonneg:
  assumes "0 \<le> niMainRate p" "0 \<le> niAdditionalRate p"
  shows "0 \<le> calcEmployeeNI p g"
  using assms by (simp add: calcEmployeeNI_def Let_def)

lemma calcEmployeeNI_mono:
  assumes "0 \<le> niMainRate p" "0 \<le> niAdditionalRate p" "g1 \<le> g2"
  shows "calcEmployeeNI p g1 \<le> calcEmployeeNI p g2"
  unfolding calcEmployeeNI_def Let_def
  by (intro add_mono mult_right_mono min.mono max.mono diff_right_mono order_refl assms)

text \<open>The fields of the aggregator's result, one equation each.\<close>

lemma payroll_fields:
  "PayrollResult.year (payrollFromAnnualSalary y g) = y"
  "PayrollResult.grossAnnual (payrollFromAnnualSalary y g) = max 0 g"
  "PayrollResult.personalAllowance (payrollFromAnnualSalary y g) = calcPersonalAllowance (YEARS y) (max 0 g)"
  "PayrollResult.taxableAnnual (payrollFromAnnualSalary y g) =
     max 0 (max 0 g - calcPersonalAllowance (YEARS y) (max 0 g))"
  "PayrollResult.incomeTaxAnnual (payrollFromAnnualSalary y g) =
     calcIncomeTax (YEARS y) (max 0 (max 0 g - calcPersonalAllowance (YEARS y) (max 0 g)))"
  "PayrollResult.niAnnual (payrollFromAnnualSalary y g) = calcEmployeeNI (YEARS y) (max 0 g)"
  "PayrollResult.netAnnual (payrollFromAnnualSalary y g) =
     max 0 (max 0 g - PayrollResult.incomeTaxAnnual (payrollFromAnnualSalary y g)
                    - PayrollResult.niAnnual (payrollFromAnnualSalary y g))"
  "PayrollResult.netMonthly (payrollFromAnnualSalary y g) =
     PayrollResult.netAnnual (payrollFromAnnualSalary y g) / 12"
  "PayrollResult.takeHomePct (payrollFromAnnualSalary y g) =
     (if max 0 g > 0 then (PayrollResult.netAnnual (payrollFromAnnualSalary y g) / max 0 g) * 100 else 0)"
  "PayrollResult.notes (payrollFromAnnualSalary y g) =
     (case YearParams.notes (YEARS y) of None \<Rightarrow> [] | Some ns \<Rightarrow> ns)"
  by (simp_all add: payrollFromAnnualSalary_def Let_def)

text \<open>Evaluation of \<open>b64\<close> on numerals: the floor of a quotient and the bit length.\<close>

lemma floor_rat_numeral: "\<lfloor>(numeral a :: rat) / numeral b\<rfloor> = numeral a div numeral b"
  using floor_divide_of_int_eq [of "numeral a" "numeral b", where ?'a = rat] by simp

lemma bitlen_numeral:
  "bitlen 0 = 0"
  "bitlen 1 = 1"
  "bitlen (Suc 0) = 1"
  "bitlen (numeral n) = Suc (bitlen (numeral n div 2))"
  by (simp_all add: bitlen.simps [of 0] bitlen.simps [of 1] bitlen.simps [of "Suc 0"]
      bitlen.simps [of "numeral n"])

lemmas b64_eval =
  b64_def ilog2_def pow2_def roundHalfEven_def bitlen_numeral Let_def floor_rat_numeral

lemmas fops = fadd_def fsub_def fmul_def fdiv_def

text \<open>
  The rounding at familiar values: \<^verbatim>\<open>0.1 + 0.2\<close> is \<^verbatim>\<open>0.30000000000000004\<close>, a third is
  \<^verbatim>\<open>0.3333333333333333\<close>, a small integer is itself, a tie goes to the even significand
  (\<open>2 ^ 53 + 1\<close> down, \<open>2 ^ 53 + 3\<close> up), and the rounding is symmetric in the sign.
\<close>

lemma b64_examples:
  "b64 (b64 0.1 + b64 0.2) = 1351079888211149 / 4503599627370496"
  "b64 (1 / 3) = 6004799503160661 / 18014398509481984"
  "b64 12570 = 12570"
  "b64 0.1 = 3602879701896397 / 36028797018963968"
  "b64 9007199254740993 = 9007199254740992"
  "b64 9007199254740995 = 9007199254740996"
  "b64 (- 0.1) = - b64 0.1"
  by (simp_all add: b64_eval)

text \<open>
  The 2024/25 entry in binary64, and the calculators at the amounts of the two worked
  scenarios.
\<close>

lemma YEARS_b64_notes: "YearParams.notes (YEARS_b64 y) = YearParams.notes (YEARS y)"
  by (simp add: YEARS_b64_def Let_def)

lemma YEARS_b64_2024_25:
  "YEARS_b64 Y2024_25 = \<lparr>
     YearParams.year = Y2024_25,
     personalAllowance = 12570,
     taperStart = 100000,
     taperEnd = 125140,
     basicBandTaxable = 37700,
     higherThresholdTaxable = 125140,
     niPrimaryThreshold = 12570,
     niUpperEarningsLimit = 50270,
     niMainRate = 5764607523034235 / 72057594037927936,
     niAdditionalRate = 5764607523034235 / 288230376151711744,
     notes = None \<rparr>"
  unfolding YEARS_b64_def Let_def
  by (simp add: b64_eval)

lemma calcPersonalAllowance_b64_2425_50000:
  "calcPersonalAllowance_b64 (YEARS_b64 Y2024_25) 50000 = 12570"
  unfolding calcPersonalAllowance_b64_def Let_def YEARS_b64_2024_25 fops clamp_def
  by (simp add: b64_eval)

lemma calcPersonalAllowance_b64_2425_110000:
  "calcPersonalAllowance_b64 (YEARS_b64 Y2024_25) 110000 = 7570"
  unfolding calcPersonalAllowance_b64_def Let_def YEARS_b64_2024_25 fops clamp_def
  by (simp add: b64_eval)

lemma calcIncomeTax_b64_2425_37430:
  "calcIncomeTax_b64 (YEARS_b64 Y2024_25) 37430 = 7486"
  unfolding calcIncomeTax_b64_def Let_def YEARS_b64_2024_25 fops
  by (simp add: b64_eval)

lemma calcIncomeTax_b64_2425_102430:
  "calcIncomeTax_b64 (YEARS_b64 Y2024_25) 102430 = 33432"
  unfolding calcIncomeTax_b64_def Let_def YEARS_b64_2024_25 fops
  by (simp add: b64_eval)

lemma calcEmployeeNI_b64_2425_50000:
  "calcEmployeeNI_b64 (YEARS_b64 Y2024_25) 50000 = 6584755236424909 / 2199023255552"
  unfolding calcEmployeeNI_b64_def Let_def YEARS_b64_2024_25 fops
  by (simp add: b64_eval)

lemma calcEmployeeNI_b64_2425_110000:
  "calcEmployeeNI_b64 (YEARS_b64 Y2024_25) 110000 = 2314801829956813 / 549755813888"
  unfolding calcEmployeeNI_b64_def Let_def YEARS_b64_2024_25 fops
  by (simp add: b64_eval)

lemma payroll_b64_2425_50000: "payrollFromAnnualSalary_b64 Y2024_25 50000 =
  \<lparr> PayrollResult.year = Y2024_25, grossAnnual = 50000, personalAllowance = 12570,
    taxableAnnual = 37430, incomeTaxAnnual = 7486,
    niAnnual = 6584755236424909 / 2199023255552,
    netAnnual = 5431532465632051 / 137438953472,
    netMonthly = 7242043287509401 / 2199023255552,
    takeHomePct = 1390472311201805 / 17592186044416, notes = [] \<rparr>"
  unfolding payrollFromAnnualSalary_b64_def Let_def fops
  by (simp add: calcPersonalAllowance_b64_2425_50000 calcIncomeTax_b64_2425_37430 calcEmployeeNI_b64_2425_50000 YEARS_b64_notes b64_eval)

lemma payroll_b64_2425_110000: "payrollFromAnnualSalary_b64 Y2024_25 110000 =
  \<lparr> PayrollResult.year = Y2024_25, grossAnnual = 110000, personalAllowance = 7570,
    taxableAnnual = 102430, incomeTaxAnnual = 33432,
    niAnnual = 2314801829956813 / 549755813888,
    netAnnual = 2486181332988723 / 34359738368,
    netMonthly = 828727110996241 / 137438953472,
    takeHomePct = 578602201131921 / 8796093022208, notes = [] \<rparr>"
  unfolding payrollFromAnnualSalary_b64_def Let_def fops
  by (simp add: calcPersonalAllowance_b64_2425_110000 calcIncomeTax_b64_2425_102430 calcEmployeeNI_b64_2425_110000 YEARS_b64_notes b64_eval)

subsection \<open>The claims\<close>

text \<open>
  Claim C1. For each of the six years and every gross income, with \<open>g\<close> the gross clamped
  at 0: when \<open>g\<close> is at most \<open>taperStart\<close> the allowance is the full personal allowance;
  when \<open>g\<close> is at least \<open>taperEnd\<close> it is 0; otherwise it is the full allowance less
  half of the excess over \<open>taperStart\<close>, clamped between 0 and the full allowance. In every
  case the allowance lies between 0 and the full allowance.
\<close>

theorem calcPersonalAllowance_taper:
  "(max 0 g \<le> taperStart (YEARS y) \<longrightarrow>
      calcPersonalAllowance (YEARS y) g = YearParams.personalAllowance (YEARS y)) \<and>
   (taperEnd (YEARS y) \<le> max 0 g \<longrightarrow> calcPersonalAllowance (YEARS y) g = 0) \<and>
   (\<not> max 0 g \<le> taperStart (YEARS y) \<and> \<not> taperEnd (YEARS y) \<le> max 0 g \<longrightarrow>
      calcPersonalAllowance (YEARS y) g =
        clamp (YearParams.personalAllowance (YEARS y) - (max 0 g - taperStart (YEARS y)) / 2)
          0 (YearParams.personalAllowance (YEARS y))) \<and>
   0 \<le> calcPersonalAllowance (YEARS y) g \<and>
   calcPersonalAllowance (YEARS y) g \<le> YearParams.personalAllowance (YEARS y)"
proof -
  define a where "a = max 0 g"
  have lt: "taperStart (YEARS y) < taperEnd (YEARS y)" by (rule YEARS_facts)
  have eq: "calcPersonalAllowance (YEARS y) g =
      (if a \<le> taperStart (YEARS y) then YearParams.personalAllowance (YEARS y)
       else if taperEnd (YEARS y) \<le> a then 0
       else clamp (YearParams.personalAllowance (YEARS y) - (a - taperStart (YEARS y)) / 2)
              0 (YearParams.personalAllowance (YEARS y)))"
    unfolding calcPersonalAllowance_def Let_def a_def by simp
  have c1: "a \<le> taperStart (YEARS y) \<longrightarrow>
      calcPersonalAllowance (YEARS y) g = YearParams.personalAllowance (YEARS y)"
    by (simp add: eq)
  have c2: "taperEnd (YEARS y) \<le> a \<longrightarrow> calcPersonalAllowance (YEARS y) g = 0"
    using lt by (auto simp: eq)
  have c3: "\<not> a \<le> taperStart (YEARS y) \<and> \<not> taperEnd (YEARS y) \<le> a \<longrightarrow>
      calcPersonalAllowance (YEARS y) g =
        clamp (YearParams.personalAllowance (YEARS y) - (a - taperStart (YEARS y)) / 2)
          0 (YearParams.personalAllowance (YEARS y))"
    by (simp add: eq)
  have bd: "0 \<le> calcPersonalAllowance (YEARS y) g \<and>
            calcPersonalAllowance (YEARS y) g \<le> YearParams.personalAllowance (YEARS y)"
    by (rule calcPersonalAllowance_bounds) (rule YEARS_facts)
  from c1 c2 c3 bd show ?thesis
    unfolding a_def by blast
qed

text \<open>The three branches at 2024/25: below the taper, beyond it, and inside it.\<close>

theorem calcPersonalAllowance_taper_witness:
  "max 0 50000 \<le> taperStart (YEARS Y2024_25) \<and>
   calcPersonalAllowance (YEARS Y2024_25) 50000 = 12570 \<and>
   taperEnd (YEARS Y2024_25) \<le> max 0 130000 \<and>
   calcPersonalAllowance (YEARS Y2024_25) 130000 = 0 \<and>
   \<not> max 0 110000 \<le> taperStart (YEARS Y2024_25) \<and>
   \<not> taperEnd (YEARS Y2024_25) \<le> max 0 110000 \<and>
   calcPersonalAllowance (YEARS Y2024_25) 110000 = 7570"
  using calcPersonalAllowance_taper [of 50000 Y2024_25]
    calcPersonalAllowance_taper [of 130000 Y2024_25]
    calcPersonalAllowance_taper [of 110000 Y2024_25]
  by (simp add: clamp_def)

text \<open>
  Claim C2. For each of the six years and every taxable income, with \<open>t\<close> the taxable income
  clamped at 0, the income tax is 20 percent of the slice of \<open>t\<close> within the basic band,
  plus 40 percent of the slice above the basic band capped at the width of the higher band,
  plus 45 percent of the slice above the higher threshold. The three slices are disjoint and exhaust \<open>t\<close>: their
  sum is \<open>t\<close>.
\<close>

theorem calcIncomeTax_marginal_bands:
  "calcIncomeTax (YEARS y) t =
     min (max 0 t) (basicBandTaxable (YEARS y)) * 0.20
     + min (max 0 (max 0 t - basicBandTaxable (YEARS y)))
           (max 0 (higherThresholdTaxable (YEARS y) - basicBandTaxable (YEARS y))) * 0.40
     + max 0 (max 0 t - higherThresholdTaxable (YEARS y)) * 0.45
   \<and> min (max 0 t) (basicBandTaxable (YEARS y))
     + min (max 0 (max 0 t - basicBandTaxable (YEARS y)))
           (max 0 (higherThresholdTaxable (YEARS y) - basicBandTaxable (YEARS y)))
     + max 0 (max 0 t - higherThresholdTaxable (YEARS y)) = max 0 t"
proof
  show "calcIncomeTax (YEARS y) t =
     min (max 0 t) (basicBandTaxable (YEARS y)) * 0.20
     + min (max 0 (max 0 t - basicBandTaxable (YEARS y)))
           (max 0 (higherThresholdTaxable (YEARS y) - basicBandTaxable (YEARS y))) * 0.40
     + max 0 (max 0 t - higherThresholdTaxable (YEARS y)) * 0.45"
    by (simp add: calcIncomeTax_def Let_def)
next
  have "0 \<le> basicBandTaxable (YEARS y)"
    and "basicBandTaxable (YEARS y) \<le> higherThresholdTaxable (YEARS y)"
    by (rule YEARS_facts)+
  then show "min (max 0 t) (basicBandTaxable (YEARS y))
     + min (max 0 (max 0 t - basicBandTaxable (YEARS y)))
           (max 0 (higherThresholdTaxable (YEARS y) - basicBandTaxable (YEARS y)))
     + max 0 (max 0 t - higherThresholdTaxable (YEARS y)) = max 0 t"
    by (simp add: max_def min_def)
qed

text \<open>
  Claim C3. For each of the six years and every gross income, with \<open>g\<close> the gross clamped at
  0, employee NI is the part of \<open>g\<close> between the primary threshold and the upper earnings
  limit at the main rate, plus the part of \<open>g\<close> above the upper earnings limit at the
  additional rate. The two parts are disjoint: together they are the part of \<open>g\<close> above the
  primary threshold.
\<close>

theorem calcEmployeeNI_formula:
  "calcEmployeeNI (YEARS y) g =
     max 0 (min (max 0 g) (niUpperEarningsLimit (YEARS y)) - niPrimaryThreshold (YEARS y))
       * niMainRate (YEARS y)
     + max 0 (max 0 g - niUpperEarningsLimit (YEARS y)) * niAdditionalRate (YEARS y)
   \<and> max 0 (min (max 0 g) (niUpperEarningsLimit (YEARS y)) - niPrimaryThreshold (YEARS y))
     + max 0 (max 0 g - niUpperEarningsLimit (YEARS y))
     = max 0 (max 0 g - niPrimaryThreshold (YEARS y))"
proof
  show "calcEmployeeNI (YEARS y) g =
     max 0 (min (max 0 g) (niUpperEarningsLimit (YEARS y)) - niPrimaryThreshold (YEARS y))
       * niMainRate (YEARS y)
     + max 0 (max 0 g - niUpperEarningsLimit (YEARS y)) * niAdditionalRate (YEARS y)"
    by (simp add: calcEmployeeNI_def Let_def)
next
  have "niPrimaryThreshold (YEARS y) \<le> niUpperEarningsLimit (YEARS y)"
    by (rule YEARS_facts)
  then show "max 0 (min (max 0 g) (niUpperEarningsLimit (YEARS y)) - niPrimaryThreshold (YEARS y))
     + max 0 (max 0 g - niUpperEarningsLimit (YEARS y))
     = max 0 (max 0 g - niPrimaryThreshold (YEARS y))"
    by (simp add: max_def min_def)
qed

text \<open>
  Claim C4. For each of the six years and every gross \<open>g \<ge> 0\<close>, the result satisfies:
  taxable income is \<open>max 0 (g - personalAllowance)\<close>; net pay is
  \<open>max 0 (g - incomeTaxAnnual - niAnnual)\<close>; monthly net is a twelfth of net pay; and the
  take-home percentage is \<open>netAnnual / g * 100\<close> when \<open>g > 0\<close> and 0 when \<open>g = 0\<close>.
\<close>

theorem payroll_derived_fields:
  assumes "0 \<le> g"
  shows "PayrollResult.taxableAnnual (payrollFromAnnualSalary y g) =
           max 0 (g - PayrollResult.personalAllowance (payrollFromAnnualSalary y g)) \<and>
         PayrollResult.netAnnual (payrollFromAnnualSalary y g) =
           max 0 (g - PayrollResult.incomeTaxAnnual (payrollFromAnnualSalary y g)
                    - PayrollResult.niAnnual (payrollFromAnnualSalary y g)) \<and>
         PayrollResult.netMonthly (payrollFromAnnualSalary y g) =
           PayrollResult.netAnnual (payrollFromAnnualSalary y g) / 12 \<and>
         PayrollResult.takeHomePct (payrollFromAnnualSalary y g) =
           (if g > 0 then (PayrollResult.netAnnual (payrollFromAnnualSalary y g) / g) * 100 else 0)"
proof -
  from assms have "max 0 g = g" by simp
  then show ?thesis by (simp add: payroll_fields)
qed

text \<open>The same at 2024/25 and a gross of 50000.\<close>

theorem payroll_derived_fields_witness:
  "(0::rat) \<le> 50000 \<and>
   PayrollResult.taxableAnnual (payrollFromAnnualSalary Y2024_25 50000) =
     max 0 (50000 - PayrollResult.personalAllowance (payrollFromAnnualSalary Y2024_25 50000)) \<and>
   PayrollResult.netAnnual (payrollFromAnnualSalary Y2024_25 50000) =
     max 0 (50000 - PayrollResult.incomeTaxAnnual (payrollFromAnnualSalary Y2024_25 50000)
                  - PayrollResult.niAnnual (payrollFromAnnualSalary Y2024_25 50000)) \<and>
   PayrollResult.netMonthly (payrollFromAnnualSalary Y2024_25 50000) =
     PayrollResult.netAnnual (payrollFromAnnualSalary Y2024_25 50000) / 12 \<and>
   PayrollResult.takeHomePct (payrollFromAnnualSalary Y2024_25 50000) =
     (PayrollResult.netAnnual (payrollFromAnnualSalary Y2024_25 50000) / 50000) * 100"
  using payroll_derived_fields [of 50000 Y2024_25] by simp

text \<open>
  Claim C5, as amended. The two worked scenarios of 2024/25 in the program's binary64
  arithmetic, each decimal read as the binary64 value nearest to it: a gross of 110000
  gives allowance 7570, taxable 102430, income tax 33432.00, NI 4210.60 and net 72357.40; a
  gross of 50000 gives allowance 12570, taxable 37430, income tax 7486.00, NI 2994.40 and
  net 39519.60. The monthly net of the second scenario is the net divided by 12 and
  rounded, which is \<^verbatim>\<open>3293.2999999999997\<close>: one unit in the last place (\<open>2 ^ -41\<close>) below
  the binary64 value of 3293.30, and within \<open>10 ^ -12\<close> of 3293.30.
\<close>

theorem payroll_2024_25_scenarios_binary64:
  "PayrollResult.personalAllowance (payrollFromAnnualSalary_b64 Y2024_25 110000) = 7570 \<and>
   PayrollResult.taxableAnnual (payrollFromAnnualSalary_b64 Y2024_25 110000) = 102430 \<and>
   PayrollResult.incomeTaxAnnual (payrollFromAnnualSalary_b64 Y2024_25 110000) = b64 33432.00 \<and>
   PayrollResult.niAnnual (payrollFromAnnualSalary_b64 Y2024_25 110000) = b64 4210.60 \<and>
   PayrollResult.netAnnual (payrollFromAnnualSalary_b64 Y2024_25 110000) = b64 72357.40 \<and>
   PayrollResult.personalAllowance (payrollFromAnnualSalary_b64 Y2024_25 50000) = 12570 \<and>
   PayrollResult.taxableAnnual (payrollFromAnnualSalary_b64 Y2024_25 50000) = 37430 \<and>
   PayrollResult.incomeTaxAnnual (payrollFromAnnualSalary_b64 Y2024_25 50000) = b64 7486.00 \<and>
   PayrollResult.niAnnual (payrollFromAnnualSalary_b64 Y2024_25 50000) = b64 2994.40 \<and>
   PayrollResult.netAnnual (payrollFromAnnualSalary_b64 Y2024_25 50000) = b64 39519.60 \<and>
   PayrollResult.netMonthly (payrollFromAnnualSalary_b64 Y2024_25 50000)
     = fdiv (PayrollResult.netAnnual (payrollFromAnnualSalary_b64 Y2024_25 50000)) 12 \<and>
   PayrollResult.netMonthly (payrollFromAnnualSalary_b64 Y2024_25 50000)
     = 7242043287509401 / 2199023255552 \<and>
   PayrollResult.netMonthly (payrollFromAnnualSalary_b64 Y2024_25 50000)
     = b64 3293.30 - pow2 (- 41) \<and>
   \<bar>PayrollResult.netMonthly (payrollFromAnnualSalary_b64 Y2024_25 50000) - 3293.30\<bar>
     < 1 / 10 ^ 12"
proof -
  have a: "PayrollResult.personalAllowance (payrollFromAnnualSalary_b64 Y2024_25 110000) = 7570"
    and b: "PayrollResult.taxableAnnual (payrollFromAnnualSalary_b64 Y2024_25 110000) = 102430"
    by (simp_all add: payroll_b64_2425_110000)
  have c: "PayrollResult.incomeTaxAnnual (payrollFromAnnualSalary_b64 Y2024_25 110000)
      = b64 33432.00"
    by (simp add: payroll_b64_2425_110000 b64_eval)
  have d: "PayrollResult.niAnnual (payrollFromAnnualSalary_b64 Y2024_25 110000) = b64 4210.60"
    by (simp add: payroll_b64_2425_110000 b64_eval)
  have e: "PayrollResult.netAnnual (payrollFromAnnualSalary_b64 Y2024_25 110000) = b64 72357.40"
    by (simp add: payroll_b64_2425_110000 b64_eval)
  have a': "PayrollResult.personalAllowance (payrollFromAnnualSalary_b64 Y2024_25 50000) = 12570"
    and b': "PayrollResult.taxableAnnual (payrollFromAnnualSalary_b64 Y2024_25 50000) = 37430"
    by (simp_all add: payroll_b64_2425_50000)
  have c': "PayrollResult.incomeTaxAnnual (payrollFromAnnualSalary_b64 Y2024_25 50000)
      = b64 7486.00"
    by (simp add: payroll_b64_2425_50000 b64_eval)
  have d': "PayrollResult.niAnnual (payrollFromAnnualSalary_b64 Y2024_25 50000) = b64 2994.40"
    by (simp add: payroll_b64_2425_50000 b64_eval)
  have e': "PayrollResult.netAnnual (payrollFromAnnualSalary_b64 Y2024_25 50000) = b64 39519.60"
    by (simp add: payroll_b64_2425_50000 b64_eval)
  have f': "PayrollResult.netMonthly (payrollFromAnnualSalary_b64 Y2024_25 50000)
      = fdiv (PayrollResult.netAnnual (payrollFromAnnualSalary_b64 Y2024_25 50000)) 12"
    unfolding fdiv_def by (simp add: payroll_b64_2425_50000 b64_eval)
  have g': "PayrollResult.netMonthly (payrollFromAnnualSalary_b64 Y2024_25 50000)
      = 7242043287509401 / 2199023255552"
    by (simp add: payroll_b64_2425_50000)
  have h': "PayrollResult.netMonthly (payrollFromAnnualSalary_b64 Y2024_25 50000)
      = b64 3293.30 - pow2 (- 41)"
    by (simp add: payroll_b64_2425_50000 b64_eval)
  have i': "\<bar>PayrollResult.netMonthly (payrollFromAnnualSalary_b64 Y2024_25 50000) - 3293.30\<bar>
      < 1 / 10 ^ 12"
    by (simp add: payroll_b64_2425_50000)
  from a b c d e a' b' c' d' e' f' g' h' i' show ?thesis
    by (simp only: simp_thms)
qed

text \<open>
  Claim C5 as stated fails at its own input: at 2024/25 and a gross of 50000 the monthly net
  the program computes is neither the binary64 value of 3293.30 nor the decimal itself.
\<close>

theorem payroll_2024_25_netMonthly_counterexample:
  "PayrollResult.netMonthly (payrollFromAnnualSalary_b64 Y2024_25 50000) \<noteq> b64 3293.30 \<and>
   PayrollResult.netMonthly (payrollFromAnnualSalary_b64 Y2024_25 50000) \<noteq> 3293.30"
proof
  show "PayrollResult.netMonthly (payrollFromAnnualSalary_b64 Y2024_25 50000) \<noteq> b64 3293.30"
    by (simp add: payroll_b64_2425_50000 b64_eval)
  show "PayrollResult.netMonthly (payrollFromAnnualSalary_b64 Y2024_25 50000) \<noteq> 3293.30"
    by (simp add: payroll_b64_2425_50000)
qed

text \<open>
  Claim C6. With the year fixed and \<open>0 \<le> g1 \<le> g2\<close>, income tax and NI of the result are
  each non-decreasing: the tax at \<open>g1\<close> is at most the tax at \<open>g2\<close>, and likewise for NI.
\<close>

theorem payroll_tax_ni_monotone:
  assumes "0 \<le> g1" and "0 \<le> g2" and "g1 \<le> g2"
  shows "PayrollResult.incomeTaxAnnual (payrollFromAnnualSalary y g1)
           \<le> PayrollResult.incomeTaxAnnual (payrollFromAnnualSalary y g2) \<and>
         PayrollResult.niAnnual (payrollFromAnnualSalary y g1)
           \<le> PayrollResult.niAnnual (payrollFromAnnualSalary y g2)"
proof
  have m: "max 0 g1 \<le> max 0 g2"
    using assms(3) by (intro max.mono order_refl)
  have "calcPersonalAllowance (YEARS y) (max 0 g2) \<le> calcPersonalAllowance (YEARS y) (max 0 g1)"
    using m by (intro calcPersonalAllowance_antimono YEARS_facts)
  with m have "max 0 g1 - calcPersonalAllowance (YEARS y) (max 0 g1)
      \<le> max 0 g2 - calcPersonalAllowance (YEARS y) (max 0 g2)"
    by (rule diff_mono)
  then have "max 0 (max 0 g1 - calcPersonalAllowance (YEARS y) (max 0 g1))
      \<le> max 0 (max 0 g2 - calcPersonalAllowance (YEARS y) (max 0 g2))"
    by (rule max.mono [OF order_refl])
  then show "PayrollResult.incomeTaxAnnual (payrollFromAnnualSalary y g1)
           \<le> PayrollResult.incomeTaxAnnual (payrollFromAnnualSalary y g2)"
    unfolding payroll_fields by (rule calcIncomeTax_mono)
  show "PayrollResult.niAnnual (payrollFromAnnualSalary y g1)
           \<le> PayrollResult.niAnnual (payrollFromAnnualSalary y g2)"
    unfolding payroll_fields using m by (intro calcEmployeeNI_mono YEARS_facts)
qed

text \<open>The same at 2024/25 for the grosses 50000 and 110000.\<close>

theorem payroll_tax_ni_monotone_witness:
  "(0::rat) \<le> 50000 \<and> (0::rat) \<le> 110000 \<and> (50000::rat) \<le> 110000 \<and>
   PayrollResult.incomeTaxAnnual (payrollFromAnnualSalary Y2024_25 50000)
     \<le> PayrollResult.incomeTaxAnnual (payrollFromAnnualSalary Y2024_25 110000) \<and>
   PayrollResult.niAnnual (payrollFromAnnualSalary Y2024_25 50000)
     \<le> PayrollResult.niAnnual (payrollFromAnnualSalary Y2024_25 110000)"
  using payroll_tax_ni_monotone [of 50000 110000 Y2024_25] by simp

text \<open>
  Claim C7. For each of the six years, a negative gross gives the very result a gross of 0
  gives, in every field (the echoed gross and the notes included): the input is clamped,
  never rejected.
\<close>

theorem payroll_negative_gross_is_zero:
  assumes "g < 0"
  shows "payrollFromAnnualSalary y g = payrollFromAnnualSalary y 0"
proof -
  from assms have "max 0 g = max 0 0" by simp
  then show ?thesis
    unfolding payrollFromAnnualSalary_def by simp
qed

text \<open>The same at 2022/23 (a year that carries a note) and a gross of -500.\<close>

theorem payroll_negative_gross_is_zero_witness:
  "(-500::rat) < 0 \<and> payrollFromAnnualSalary Y2022_23 (-500) = payrollFromAnnualSalary Y2022_23 0"
  using payroll_negative_gross_is_zero [of "-500" Y2022_23] by simp

text \<open>
  Claim C8. The table has exactly six entries, one per key, and each of them satisfies the
  invariants of the data model: \<open>taperStart < taperEnd\<close>,
  \<open>higherThresholdTaxable \<ge> basicBandTaxable\<close> and
  \<open>niPrimaryThreshold \<le> niUpperEarningsLimit\<close>.
\<close>

theorem YEARS_invariants:
  "card (UNIV :: TaxYearKey set) = 6 \<and>
   YearParams.year (YEARS y) = y \<and>
   taperStart (YEARS y) < taperEnd (YEARS y) \<and>
   higherThresholdTaxable (YEARS y) \<ge> basicBandTaxable (YEARS y) \<and>
   niPrimaryThreshold (YEARS y) \<le> niUpperEarningsLimit (YEARS y)"
proof -
  have "(UNIV :: TaxYearKey set) = {Y2019_20, Y2020_21, Y2021_22, Y2022_23, Y2023_24, Y2024_25}"
    by (auto intro: TaxYearKey.exhaust)
  moreover have "card {Y2019_20, Y2020_21, Y2021_22, Y2022_23, Y2023_24, Y2024_25} = 6"
    by simp
  ultimately have "card (UNIV :: TaxYearKey set) = 6" by (simp only:)
  moreover have "YearParams.year (YEARS y) = y" by (cases y) simp_all
  ultimately show ?thesis by (simp add: YEARS_facts)
qed

text \<open>
  Claim C9. For every gross input, the single-year function and the multi-year function at
  2024/25 agree on each of the eight numeric fields they share.
\<close>

theorem payroll2425_agrees:
  "PayrollResult2425.grossAnnual (payrollFromAnnualSalary2425 g)
     = PayrollResult.grossAnnual (payrollFromAnnualSalary Y2024_25 g) \<and>
   PayrollResult2425.personalAllowance (payrollFromAnnualSalary2425 g)
     = PayrollResult.personalAllowance (payrollFromAnnualSalary Y2024_25 g) \<and>
   PayrollResult2425.taxableAnnual (payrollFromAnnualSalary2425 g)
     = PayrollResult.taxableAnnual (payrollFromAnnualSalary Y2024_25 g) \<and>
   PayrollResult2425.incomeTaxAnnual (payrollFromAnnualSalary2425 g)
     = PayrollResult.incomeTaxAnnual (payrollFromAnnualSalary Y2024_25 g) \<and>
   PayrollResult2425.niAnnual (payrollFromAnnualSalary2425 g)
     = PayrollResult.niAnnual (payrollFromAnnualSalary Y2024_25 g) \<and>
   PayrollResult2425.netAnnual (payrollFromAnnualSalary2425 g)
     = PayrollResult.netAnnual (payrollFromAnnualSalary Y2024_25 g) \<and>
   PayrollResult2425.netMonthly (payrollFromAnnualSalary2425 g)
     = PayrollResult.netMonthly (payrollFromAnnualSalary Y2024_25 g) \<and>
   PayrollResult2425.takeHomePct (payrollFromAnnualSalary2425 g)
     = PayrollResult.takeHomePct (payrollFromAnnualSalary Y2024_25 g)"
proof -
  have pa: "personalAllowance2425 h = calcPersonalAllowance (YEARS Y2024_25) h" if "0 \<le> h" for h
    using that
    by (simp add: personalAllowance2425_def calcPersonalAllowance_def PA_FULL_def
        PA_TAPER_START_def PA_ZERO_AT_def Let_def)
  have it: "calcIncomeTax2425 t = calcIncomeTax (YEARS Y2024_25) t" for t
    by (simp add: calcIncomeTax2425_def calcIncomeTax_def BASIC_BAND_def PA_ZERO_AT_def Let_def)
  have ni: "calcEmployeeNI2425 h = calcEmployeeNI (YEARS Y2024_25) h" for h
    by (simp add: calcEmployeeNI2425_def calcEmployeeNI_def NI_PT_def NI_UEL_def NI_MAIN_def
        NI_ADDITIONAL_def Let_def)
  define G where "G = max 0 g"
  have g0: "0 \<le> G" by (simp add: G_def)
  show ?thesis
    unfolding payrollFromAnnualSalary2425_def payrollFromAnnualSalary_def Let_def
      G_def [symmetric]
    by (simp add: pa [OF g0] it ni)
qed

text \<open>
  Claim C10. For each of the six years and every gross input, negative ones included: the
  returned gross is the input clamped at 0, net pay is at most the returned gross, and the
  take-home percentage lies between 0 and 100; income tax and NI are never negative.
\<close>

theorem payroll_result_bounds:
  "PayrollResult.grossAnnual (payrollFromAnnualSalary y g) = max 0 g \<and>
   PayrollResult.netAnnual (payrollFromAnnualSalary y g)
     \<le> PayrollResult.grossAnnual (payrollFromAnnualSalary y g) \<and>
   0 \<le> PayrollResult.takeHomePct (payrollFromAnnualSalary y g) \<and>
   PayrollResult.takeHomePct (payrollFromAnnualSalary y g) \<le> 100 \<and>
   0 \<le> PayrollResult.incomeTaxAnnual (payrollFromAnnualSalary y g) \<and>
   0 \<le> PayrollResult.niAnnual (payrollFromAnnualSalary y g)"
proof -
  define r where "r = payrollFromAnnualSalary y g"
  define G where "G = max 0 g"
  have G0: "0 \<le> G" by (simp add: G_def)
  have tax: "0 \<le> PayrollResult.incomeTaxAnnual r"
    unfolding r_def payroll_fields by (intro calcIncomeTax_nonneg YEARS_facts)
  have ni: "0 \<le> PayrollResult.niAnnual r"
    unfolding r_def payroll_fields by (intro calcEmployeeNI_nonneg YEARS_facts)
  have gr: "PayrollResult.grossAnnual r = G"
    unfolding r_def G_def by (rule payroll_fields)
  have net: "PayrollResult.netAnnual r
      = max 0 (G - PayrollResult.incomeTaxAnnual r - PayrollResult.niAnnual r)"
    unfolding r_def G_def by (rule payroll_fields)
  have net0: "0 \<le> PayrollResult.netAnnual r" by (simp add: net)
  have netle: "PayrollResult.netAnnual r \<le> G"
    using tax ni G0 by (simp add: net)
  have pct: "PayrollResult.takeHomePct r
      = (if G > 0 then (PayrollResult.netAnnual r / G) * 100 else 0)"
    unfolding r_def G_def by (rule payroll_fields)
  have p0: "0 \<le> PayrollResult.takeHomePct r"
    using net0 G0 by (simp add: pct)
  have p100: "PayrollResult.takeHomePct r \<le> 100"
  proof (cases "G > 0")
    case True
    then have "PayrollResult.netAnnual r * 100 / G \<le> 100"
      using netle by (simp add: pos_divide_le_eq)
    then show ?thesis using True by (simp add: pct)
  next
    case False
    then show ?thesis by (simp add: pct)
  qed
  show ?thesis
    using gr netle p0 p100 tax ni unfolding r_def G_def by simp
qed

end
